theory Spec2Isabelle
  imports Main
begin

section \<open>The Outlook app module (appModules/outlook.py)\<close>

text \<open>
  A shallow embedding of the parts of \<^verbatim>\<open>source/appModules/outlook.py\<close> that
  format messages, acquire the native object model and derive the Outlook version, render
  calendar time ranges and report the focus of the calendar, move through the legacy
  message list, build the name of a grid row and choose overlay classes. State that the
  source mutates (the app module, the date announced last, the overlay list) is passed in
  and returned. Remote (COM) property reads are inputs of the model; a read that raises
  \<^verbatim>\<open>COMError\<close> is the value \<open>ComError\<close>. Functions of other modules
  (\<^verbatim>\<open>winKernel\<close>, \<^verbatim>\<open>winUser\<close>, \<^verbatim>\<open>controlTypes\<close>,
  the base classes) are parameters. The translation function \<^verbatim>\<open>_\<close> is taken
  as the identity (the untranslated English messages).
\<close>

subsection \<open>Python helpers\<close>

text \<open>\<^verbatim>\<open>sep.join(xs)\<close>.\<close>

fun join :: "string \<Rightarrow> string list \<Rightarrow> string" where
  "join sep [] = []"
| "join sep [x] = x"
| "join sep (x # y # ys) = x @ sep @ join sep (y # ys)"

text \<open>\<^verbatim>\<open>s.split(c)\<close> with a one-character separator: every occurrence
  splits, empty pieces are kept, and the result is never empty.\<close>

fun split :: "char \<Rightarrow> string \<Rightarrow> string list" where
  "split c [] = [[]]"
| "split c (x # xs) =
     (if x = c then [] # split c xs
      else (case split c xs of
              [] \<Rightarrow> [[x]]
            | p # ps \<Rightarrow> (x # p) # ps))"

text \<open>\<^verbatim>\<open>xs[i:j]\<close>: a negative index counts from the end, and both ends are
  clipped to the list.\<close>

definition slice_index :: "nat \<Rightarrow> int \<Rightarrow> nat" where
  "slice_index n k = (if k < 0 then nat (max 0 (int n + k)) else min (nat k) n)"

definition py_slice :: "'a list \<Rightarrow> int \<Rightarrow> int \<Rightarrow> 'a list" where
  "py_slice xs i j = drop (slice_index (length xs) i) (take (slice_index (length xs) j) xs)"

text \<open>The exceptions the modelled code can raise itself.\<close>

datatype error =
    NameError      \<comment> \<open>a name that the module never binds is evaluated\<close>
  | AttributeError \<comment> \<open>an attribute the object does not have is read\<close>
  | ValueError     \<comment> \<open>\<^verbatim>\<open>int()\<close> of a string that is not a number\<close>
  | IndexError     \<comment> \<open>an index outside the list\<close>
  | BaseInitError  \<comment> \<open>raised by the initialiser of the base class \<^verbatim>\<open>Window\<close>\<close>

text \<open>A remote property read: the value, or \<^verbatim>\<open>COMError\<close>.\<close>

datatype 'a remote = ComError | Got 'a

subsection \<open>Formatting helpers\<close>

text \<open>The fields of a mail item that the module reads; \<open>attachments_count\<close> is
  \<^verbatim>\<open>obj.attachments.count\<close>.\<close>

record mailItem =
  entryID :: string
  senderName :: string
  subject :: string
  receivedTime :: string
  unread :: bool
  attachments_count :: int

definition sampleMail :: mailItem where
  "sampleMail =
     \<lparr>entryID = ''00A1'', senderName = ''Alice'', subject = ''Hi'',
      receivedTime = ''2024-01-01T10:00'', unread = True, attachments_count = 1\<rparr>"

definition getReceivedMessageString :: "mailItem \<Rightarrow> string" where
  "getReceivedMessageString obj =
     (let nameList = [senderName obj, ''subject: '' @ subject obj,
                      ''received: '' @ receivedTime obj];
          text1 = join '', '' nameList;
          text2 = (if unread obj then ''unread'' @ '' '' @ text1 else text1);
          text3 = (if attachments_count obj > 0 then ''attachment'' @ '' '' @ text2 else text2)
      in text3)"

subsection \<open>Acquiring the native object model\<close>

text \<open>What the module reads of the Outlook object model: the version string, and of the
  active explorer the selection (appointments, with fallible start and end), the selected
  time range of the current view, and the answer of
  \<^verbatim>\<open>currentFolder.items.find(query)\<close>.\<close>

record datetime =
  dt_year :: int
  dt_month :: int
  dt_day :: int
  dt_hour :: int
  dt_minute :: int
  dt_second :: int

record appointment =
  p_start :: "datetime remote"
  p_end :: "datetime remote"
  p_subject :: string

record explorer =
  selection :: "appointment list"
  selectedStartTime :: "datetime remote"
  selectedEndTime :: "datetime remote"
  items_find :: "string \<Rightarrow> bool"

record outlookApp =
  om_version :: string
  activeExplorer :: explorer

text \<open>One call of \<^verbatim>\<open>comHelper.getActiveObject\<close>: it raises one of the
  caught exceptions, or returns a value (\<open>None\<close> stands for a false one).\<close>

datatype acquired = Raised | Returned "outlookApp option"

datatype effect =
    ShowWaitingDialog   \<comment> \<open>the "Waiting for Outlook..." dialog is shown and destroyed\<close>
  | LogError string     \<comment> \<open>\<^verbatim>\<open>log.error\<close>\<close>

text \<open>The app module of one session. \<open>nativeOm_attr\<close> is the instance attribute
  that \<^verbatim>\<open>self.nativeOm=nativeOm\<close> writes: \<open>None\<close> while it was never
  written (the property getter runs on every read), \<open>Some v\<close> once it holds
  \<open>v\<close> (every later read returns \<open>v\<close>). \<open>effects\<close> lists what
  the user and the log have seen so far, oldest first.\<close>

record appModule =
  hasTriedoutlookAppSwitch :: bool
  nativeOm_attr :: "outlookApp option option"
  effects :: "effect list"

definition newAppModule :: appModule where
  "newAppModule =
     \<lparr>hasTriedoutlookAppSwitch = False, nativeOm_attr = None, effects = []\<rparr>"

definition registerCOMWithFocusJuggle :: "appModule \<Rightarrow> appModule" where
  "registerCOMWithFocusJuggle self =
     self\<lparr>effects := effects self @ [ShowWaitingDialog],
          hasTriedoutlookAppSwitch := True\<rparr>"

definition get_nativeOm :: "acquired \<Rightarrow> appModule \<Rightarrow> outlookApp option \<times> appModule" where
  "get_nativeOm r self =
     (let (nativeOm, self1) =
            (case r of
               Returned om \<Rightarrow> (om, self)
             | Raised \<Rightarrow>
                 (None,
                  if hasTriedoutlookAppSwitch self
                  then self\<lparr>effects := effects self @
                               [LogError ''Failed to get native object model'']\<rparr>
                  else self))
      in if nativeOm = None \<and> \<not> hasTriedoutlookAppSwitch self1
         then (None, registerCOMWithFocusJuggle self1)
         else (nativeOm, self1\<lparr>nativeOm_attr := Some nativeOm\<rparr>))"

text \<open>A read of \<^verbatim>\<open>self.nativeOm\<close>; \<open>r\<close> is what
  \<^verbatim>\<open>getActiveObject\<close> does if the getter calls it now.\<close>

definition nativeOm :: "acquired \<Rightarrow> appModule \<Rightarrow> outlookApp option \<times> appModule" where
  "nativeOm r self =
     (case nativeOm_attr self of
        Some v \<Rightarrow> (v, self)
      | None \<Rightarrow> get_nativeOm r self)"

text \<open>A series of reads, one acquisition outcome for each.\<close>

fun nativeOm_reads :: "acquired list \<Rightarrow> appModule \<Rightarrow> outlookApp option list \<times> appModule" where
  "nativeOm_reads [] self = ([], self)"
| "nativeOm_reads (r # rs) self =
     (let (v, self1) = nativeOm r self;
          (vs, self2) = nativeOm_reads rs self1
      in (v # vs, self2))"

definition dialogsShown :: "appModule \<Rightarrow> nat" where
  "dialogsShown self = length (filter (\<lambda>e. e = ShowWaitingDialog) (effects self))"

subsection \<open>The Outlook version\<close>

text \<open>\<^verbatim>\<open>int(s)\<close> of a string: surrounding white space is dropped, one sign
  is allowed, and the rest must be decimal digits, at least one.\<close>

definition is_space :: "char \<Rightarrow> bool" where
  "is_space c = (c \<in> set [CHR '' '', CHR 0x09, CHR 0x0A, CHR 0x0B, CHR 0x0C, CHR 0x0D])"

definition strip :: "string \<Rightarrow> string" where
  "strip s = rev (dropWhile is_space (rev (dropWhile is_space s)))"

definition digit_of :: "char \<Rightarrow> int option" where
  "digit_of c =
     (let n = (of_char c :: nat)
      in if 48 \<le> n \<and> n \<le> 57 then Some (int n - 48) else None)"

fun digits_value :: "int \<Rightarrow> string \<Rightarrow> int option" where
  "digits_value acc [] = Some acc"
| "digits_value acc (c # cs) =
     (case digit_of c of
        None \<Rightarrow> None
      | Some d \<Rightarrow> digits_value (10 * acc + d) cs)"

definition py_int :: "string \<Rightarrow> error + int" where
  "py_int s =
     (let t = strip s;
          (sgn, ds) =
            (case t of
               [] \<Rightarrow> (1, t)
             | c # cs \<Rightarrow>
                 if c = CHR ''-'' then (- 1, cs)
                 else if c = CHR ''+'' then (1, cs)
                 else (1, t))
      in if ds = [] then Inl ValueError
         else (case digits_value 0 ds of
                 None \<Rightarrow> Inl ValueError
               | Some v \<Rightarrow> Inr (sgn * v)))"

text \<open>\<^verbatim>\<open>_get_outlookVersion\<close>: it reads \<^verbatim>\<open>self.nativeOm\<close>
  (which may run the getter) and takes the part of the version string before the first
  dot.\<close>

definition get_outlookVersion :: "acquired \<Rightarrow> appModule \<Rightarrow> (error + int) \<times> appModule" where
  "get_outlookVersion r self =
     (let (om, self1) = nativeOm r self
      in (case om of
            Some app \<Rightarrow>
              (case split CHR ''.'' (om_version app) of
                 [] \<Rightarrow> Inl IndexError
               | major # _ \<Rightarrow> py_int major)
          | None \<Rightarrow> Inr 0,
          self1))"

subsection \<open>Calendar view\<close>

text \<open>\<^verbatim>\<open>datetime.date()\<close> and the difference of two dates in seconds,
  by the proleptic Gregorian ordinal of a date as Python computes it.\<close>

record date =
  d_year :: int
  d_month :: int
  d_day :: int

definition date_of :: "datetime \<Rightarrow> date" where
  "date_of t = \<lparr>d_year = dt_year t, d_month = dt_month t, d_day = dt_day t\<rparr>"

definition is_leap :: "int \<Rightarrow> bool" where
  "is_leap y = (y mod 4 = 0 \<and> (y mod 100 \<noteq> 0 \<or> y mod 400 = 0))"

definition days_before_year :: "int \<Rightarrow> int" where
  "days_before_year y = (let y1 = y - 1 in y1 * 365 + y1 div 4 - y1 div 100 + y1 div 400)"

definition days_before_month :: "int \<Rightarrow> int \<Rightarrow> int" where
  "days_before_month y m =
     (if m = 1 then 0 else if m = 2 then 31 else if m = 3 then 59 else if m = 4 then 90
      else if m = 5 then 120 else if m = 6 then 151 else if m = 7 then 181
      else if m = 8 then 212 else if m = 9 then 243 else if m = 10 then 273
      else if m = 11 then 304 else 334)
     + (if m > 2 \<and> is_leap y then 1 else 0)"

definition toordinal :: "date \<Rightarrow> int" where
  "toordinal d = days_before_year (d_year d) + days_before_month (d_year d) (d_month d) + d_day d"

definition SECONDS_PER_DAY :: int where
  "SECONDS_PER_DAY = 86400"

text \<open>\<^verbatim>\<open>(endDate - startDate).total_seconds()\<close>: a whole number of days,
  so the comparison with the float 86400.0 is a comparison of integers.\<close>

definition total_seconds :: "date \<Rightarrow> date \<Rightarrow> int" where
  "total_seconds endDate startDate = (toordinal endDate - toordinal startDate) * 86400"

text \<open>The formatting functions of \<^verbatim>\<open>winKernel\<close>, taken as parameters:
  \<open>GetTimeFormatEx\<close> and \<open>GetTimeFormat\<close> with
  \<^verbatim>\<open>TIME_NOSECONDS\<close>, \<open>GetDateFormatEx\<close> with
  \<^verbatim>\<open>DATE_LONGDATE\<close>, all for the user's locale.\<close>

record winKernel =
  GetTimeFormatEx :: "datetime \<Rightarrow> string"
  GetDateFormatEx :: "datetime \<Rightarrow> string"
  GetTimeFormat :: "datetime \<Rightarrow> string"

text \<open>\<^verbatim>\<open>CalendarView._generateTimeRangeText\<close>. The class attribute
  \<^verbatim>\<open>CalendarView._lastStartDate\<close> is passed in and returned;
  \<open>startDateText\<close> is bound in the source only when the start date is spoken, which
  is the case wherever it is used.\<close>

definition generateTimeRangeText ::
  "winKernel \<Rightarrow> date option \<Rightarrow> datetime \<Rightarrow> datetime \<Rightarrow> string \<times> date option" where
  "generateTimeRangeText wk lastStartDate startTime endTime =
     (let startText0 = GetTimeFormatEx wk startTime;
          endText0 = GetTimeFormatEx wk endTime;
          startDate = date_of startTime;
          endDate = date_of endTime;
          withDate = (lastStartDate = None \<or> Some startDate \<noteq> lastStartDate
                        \<or> endDate \<noteq> startDate);
          startDateText = GetDateFormatEx wk startTime;
          startText = (if withDate then startDateText @ '' '' @ startText0 else startText0);
          lastStartDate1 = Some startDate
      in if endDate \<noteq> startDate
         then if (dt_hour startTime, dt_minute startTime, dt_second startTime) = (0, 0, 0)
                   \<and> total_seconds endDate startDate = SECONDS_PER_DAY
              then (startDateText @ '' (all day)'', lastStartDate1)
              else (startText @ '' to '' @ (GetDateFormatEx wk endTime @ '' '' @ endText0),
                    lastStartDate1)
         else (startText @ '' to '' @ endText0, lastStartDate1))"

text \<open>The condition under which the source returns the all-day text: the two nested
  tests of \<^verbatim>\<open>_generateTimeRangeText\<close>.\<close>

definition isAllDay :: "datetime \<Rightarrow> datetime \<Rightarrow> bool" where
  "isAllDay startTime endTime =
     (date_of endTime \<noteq> date_of startTime \<and>
      (dt_hour startTime, dt_minute startTime, dt_second startTime) = (0, 0, 0) \<and>
      total_seconds (date_of endTime) (date_of startTime) = SECONDS_PER_DAY)"

text \<open>A sample of the formatting functions, for concrete runs: English long dates of the
  first days of March 2024 and 24-hour times of a few moments.\<close>

definition sampleTimeText :: "datetime \<Rightarrow> string" where
  "sampleTimeText t =
     (if (dt_hour t, dt_minute t) = (0, 0) then ''00:00''
      else if (dt_hour t, dt_minute t) = (9, 0) then ''09:00''
      else if (dt_hour t, dt_minute t) = (10, 0) then ''10:00''
      else if (dt_hour t, dt_minute t) = (15, 30) then ''15:30''
      else ''12:00'')"

definition sampleDateText :: "datetime \<Rightarrow> string" where
  "sampleDateText t =
     (if (dt_year t, dt_month t, dt_day t) = (2024, 3, 1) then ''1 March 2024''
      else if (dt_year t, dt_month t, dt_day t) = (2024, 3, 2) then ''2 March 2024''
      else ''3 March 2024'')"

definition sampleKernel :: winKernel where
  "sampleKernel =
     \<lparr>GetTimeFormatEx = sampleTimeText, GetDateFormatEx = sampleDateText,
      GetTimeFormat = sampleTimeText\<rparr>"

definition mkDatetime :: "int \<Rightarrow> int \<Rightarrow> int \<Rightarrow> int \<Rightarrow> int \<Rightarrow> int \<Rightarrow> datetime" where
  "mkDatetime y mo d h mi s =
     \<lparr>dt_year = y, dt_month = mo, dt_day = d, dt_hour = h, dt_minute = mi, dt_second = s\<rparr>"

text \<open>What a handler does besides changing the state.\<close>

datatype action =
    UiMessage string         \<comment> \<open>\<^verbatim>\<open>ui.message\<close>\<close>
  | EventValueChange         \<comment> \<open>\<^verbatim>\<open>self.event_valueChange()\<close>\<close>
  | SuperReportFocus         \<comment> \<open>the base class's \<^verbatim>\<open>reportFocus\<close>\<close>
  | SuperEventGainFocus      \<comment> \<open>the base class's \<^verbatim>\<open>event_gainFocus\<close>\<close>
  | LogDebugWarning string   \<comment> \<open>\<^verbatim>\<open>log.debugWarning\<close>\<close>
  | ExecuteGainFocus int     \<comment> \<open>\<^verbatim>\<open>executeEvent("gainFocus",obj)\<close>, with the parent given to \<open>obj\<close>\<close>

text \<open>\<^verbatim>\<open>CalendarView.reportFocus\<close>. The condition reads the version (a
  first read of the object model, outcome \<open>r1\<close>) and then, only if the version is 13
  or more, the object model again (outcome \<open>r2\<close>).\<close>

definition reportFocus ::
  "winKernel \<Rightarrow> acquired \<Rightarrow> acquired \<Rightarrow> appModule \<Rightarrow> date option \<Rightarrow>
     (error + action list) \<times> appModule \<times> date option" where
  "reportFocus wk r1 r2 appMod lastStartDate =
     (let (ver, appMod1) = get_outlookVersion r1 appMod
      in case ver of
           Inl e \<Rightarrow> (Inl e, appMod1, lastStartDate)
         | Inr outlookVersion \<Rightarrow>
             if outlookVersion \<ge> 13
             then (let (om, appMod2) = nativeOm r2 appMod1
                   in case om of
                        None \<Rightarrow> (Inr [EventValueChange], appMod2, lastStartDate)
                      | Some app \<Rightarrow>
                          (let e = activeExplorer app
                           in case selection e of
                                p # _ \<Rightarrow>
                                  (case p_start p of
                                     ComError \<Rightarrow> (Inr [SuperReportFocus], appMod2, lastStartDate)
                                   | Got pstart \<Rightarrow>
                                       (case p_end p of
                                          ComError \<Rightarrow>
                                            (Inr [SuperReportFocus], appMod2, lastStartDate)
                                        | Got pend \<Rightarrow>
                                            (let (t, last1) =
                                                   generateTimeRangeText wk lastStartDate pstart pend
                                             in (Inr [UiMessage (''Appointment '' @ p_subject p
                                                                  @ '', '' @ t)],
                                                 appMod2, last1))))
                              | [] \<Rightarrow>
                                  (case selectedStartTime e of
                                     ComError \<Rightarrow> (Inr [SuperReportFocus], appMod2, lastStartDate)
                                   | Got st \<Rightarrow>
                                       (case selectedEndTime e of
                                          ComError \<Rightarrow>
                                            (Inr [SuperReportFocus], appMod2, lastStartDate)
                                        | Got en \<Rightarrow>
                                            (let (timeSlotText, last1) =
                                                   generateTimeRangeText wk lastStartDate st en;
                                                 startLimit = GetDateFormatEx wk st @ '' ''
                                                                @ GetTimeFormat wk st;
                                                 endLimit = GetDateFormatEx wk en @ '' ''
                                                              @ GetTimeFormat wk en;
                                                 query = ''[Start] < '' @ [CHR 0x22] @ endLimit
                                                           @ [CHR 0x22] @ '' And [End] > ''
                                                           @ [CHR 0x22] @ startLimit @ [CHR 0x22];
                                                 timeSlotText1 =
                                                   (if items_find e query
                                                    then ''Has appointment'' @ '' '' @ timeSlotText
                                                    else timeSlotText)
                                             in (Inr [UiMessage timeSlotText1],
                                                 appMod2, last1))))))
             else (Inr [EventValueChange], appMod1, lastStartDate))"

subsection \<open>The grid client of Outlook 2010\<close>

text \<open>\<^verbatim>\<open>SuperGridClient2010.event_gainFocus\<close>. \<open>handler\<close> is whether
  \<^verbatim>\<open>UIAHandler.handler\<close> is set; \<open>uiaFocus\<close> is the UIA object with
  focus (\<open>None\<close> when building it raises), told by whether it is a
  \<^verbatim>\<open>UIAGridRow\<close>; \<open>parent\<close> is \<^verbatim>\<open>self.parent\<close>.\<close>

definition event_gainFocus ::
  "acquired \<Rightarrow> appModule \<Rightarrow> bool \<Rightarrow> bool option \<Rightarrow> int \<Rightarrow>
     (error + action list) \<times> appModule" where
  "event_gainFocus r appMod handler uiaFocus parent =
     (let (ver, appMod1) = get_outlookVersion r appMod
      in case ver of
           Inl e \<Rightarrow> (Inl e, appMod1)
         | Inr outlookVersion \<Rightarrow>
             if outlookVersion < 14 \<or> \<not> handler
             then (Inr [SuperEventGainFocus], appMod1)
             else (case uiaFocus of
                     None \<Rightarrow>
                       (Inr [LogDebugWarning ''Retrieving UIA focus failed'',
                             SuperEventGainFocus], appMod1)
                   | Some isUIAGridRow \<Rightarrow>
                       if \<not> isUIAGridRow then (Inr [SuperEventGainFocus], appMod1)
                       else (Inr [ExecuteGainFocus parent], appMod1)))"

subsection \<open>The message list of Outlook 2000 and older\<close>

text \<open>The values that reach the constructor of \<^verbatim>\<open>MessageItem\<close>: nothing,
  a window handle, the message list overlay itself (told by its window handle) or a remote
  message. \<open>truthy\<close> is Python's truth value of each.\<close>

datatype pyobj = PyNone | PyHandle int | PyMessageList int | PyMsg mailItem

fun truthy :: "pyobj \<Rightarrow> bool" where
  "truthy PyNone = False"
| "truthy (PyHandle h) = (h \<noteq> 0)"
| "truthy (PyMessageList h) = True"
| "truthy (PyMsg m) = True"

text \<open>The attribute reads \<^verbatim>\<open>.windowHandle\<close> and
  \<^verbatim>\<open>.entryID\<close>: only an overlay has the first, only a message the second.\<close>

fun get_windowHandle :: "pyobj \<Rightarrow> error + pyobj" where
  "get_windowHandle (PyMessageList h) = Inr (PyHandle h)"
| "get_windowHandle obj = Inl AttributeError"

fun get_entryID :: "pyobj \<Rightarrow> error + string" where
  "get_entryID (PyMsg m) = Inr (entryID m)"
| "get_entryID obj = Inl AttributeError"

record messageItem =
  mi_msg :: pyobj
  mi_parent :: pyobj
  mi_windowHandle :: pyobj

text \<open>\<^verbatim>\<open>MessageItem.__init__(self,windowHandle=None,parent=None,msg=None)\<close>.
  The name \<^verbatim>\<open>ArguementError\<close> of the \<^verbatim>\<open>raise\<close> is bound nowhere
  in the module, so evaluating it raises \<^verbatim>\<open>NameError\<close>. The initialiser of the
  base class \<^verbatim>\<open>Window\<close> is not part of the module: \<open>Window_init\<close> tells
  for which window handle it returns (it raises for the others).\<close>

definition MessageItem_init ::
  "(pyobj \<Rightarrow> bool) \<Rightarrow> pyobj \<Rightarrow> pyobj \<Rightarrow> pyobj \<Rightarrow> error + messageItem" where
  "MessageItem_init Window_init windowHandle parent msg =
     (if \<not> truthy parent \<or> \<not> truthy msg then Inl NameError
      else (case (if \<not> truthy windowHandle then get_windowHandle parent
                  else Inr windowHandle) of
              Inl e \<Rightarrow> Inl e
            | Inr wh \<Rightarrow>
                if Window_init wh
                then Inr \<lparr>mi_msg = msg, mi_parent = parent, mi_windowHandle = wh\<rparr>
                else Inl BaseInitError))"

text \<open>The overlay \<^verbatim>\<open>MessageList_pre2003\<close>: its window handle and the
  attribute \<^verbatim>\<open>curMessageItem\<close> (\<open>None\<close> while the object has no
  such attribute).\<close>

record messageList =
  ml_windowHandle :: int
  curMessageItem :: "messageItem option"

datatype listEvent =
    GestureSend             \<comment> \<open>\<^verbatim>\<open>gesture.send()\<close>\<close>
  | GainFocus messageItem   \<comment> \<open>\<^verbatim>\<open>executeEvent("gainFocus",messageItem)\<close>\<close>

text \<open>\<^verbatim>\<open>MessageList_pre2003.script_moveByMessage\<close>. \<open>sel\<close> is the
  first selected message after the gesture was sent (\<open>None\<close> when reading it raises
  or gives nothing). The call \<^verbatim>\<open>MessageItem(self,msg)\<close> passes its two
  arguments by position, so \<^verbatim>\<open>self\<close> is bound to
  \<open>windowHandle\<close>, the message to \<open>parent\<close>, and \<open>msg\<close> keeps its
  default. The result lists the events in order, the overlay afterwards, and the exception
  that left the script, if one did.\<close>

definition script_moveByMessage ::
  "(pyobj \<Rightarrow> bool) \<Rightarrow> mailItem option \<Rightarrow> messageList \<Rightarrow>
     listEvent list \<times> messageList \<times> error option" where
  "script_moveByMessage Window_init sel self =
     (case (case curMessageItem self of
              Some cur \<Rightarrow> map_sum id Some (get_entryID (mi_msg cur))
            | None \<Rightarrow> Inr None) of
        Inl e \<Rightarrow> ([], self, Some e)
      | Inr oldEntryID \<Rightarrow>
          (case sel of
             None \<Rightarrow> ([GestureSend], self, None)
           | Some msg \<Rightarrow>
               (case MessageItem_init Window_init
                       (PyMessageList (ml_windowHandle self)) (PyMsg msg) PyNone of
                  Inl e \<Rightarrow> ([GestureSend], self, Some e)
                | Inr messageItem \<Rightarrow>
                    (case get_entryID (mi_msg messageItem) of
                       Inl e \<Rightarrow> ([GestureSend], self, Some e)
                     | Inr newEntryID \<Rightarrow>
                         if Some newEntryID \<noteq> oldEntryID
                         then ([GestureSend, GainFocus messageItem],
                               self\<lparr>curMessageItem := Some messageItem\<rparr>, None)
                         else ([GestureSend], self, None)))))"

subsection \<open>Choosing overlay classes\<close>

datatype role =
    ROLE_BUTTON | ROLE_TABLECELL | ROLE_CHECKBOX | ROLE_LISTITEM | ROLE_DIALOG | ROLE_PANE
  | ROLE_OTHER

text \<open>The classes of the overlay list: the two generic ones the module looks for, its
  own overlays, and any other class by name.\<close>

datatype cls =
    Dialog | WordDocument
  | UIAGridRow | OutlookWordDocument | DatePickerButton | DatePickerCell
  | REListBox20W_CheckBox | AutoCompleteListItem | AddressBookEntry
  | MessageList_pre2003 | SuperGridClient2010 | CalendarView
  | OtherClass string

text \<open>What the hook reads of the object: which of the two API classes it is an instance
  of, the cached class name of its UIA element (read only for a UIA object), and its window
  and event attributes.\<close>

record nvdaObject =
  isUIA :: bool
  isIAccessible :: bool
  cachedClassName :: string
  role :: role
  windowClassName :: string
  windowControlID :: int
  windowHandle :: int
  event_objectID :: int
  event_childID :: int

text \<open>The window functions of \<^verbatim>\<open>winUser\<close>, taken as parameters:
  \<open>getAncestor\<close> is \<^verbatim>\<open>getAncestor(hwnd,GA_PARENT)\<close>, 0 when the
  window has no parent.\<close>

record winUser =
  getAncestor :: "int \<Rightarrow> int"
  getClassName :: "int \<Rightarrow> string"

definition OBJID_CLIENT :: int where
  "OBJID_CLIENT = - 4"

definition startswith :: "string \<Rightarrow> string \<Rightarrow> bool" where
  "startswith s p = (take (length p) s = p)"

text \<open>\<^verbatim>\<open>AppModule.chooseNVDAObjectOverlayClasses\<close>, one function for each
  statement that changes the list, in the order of the source. First the insertion of the
  grid row overlay for the UIA rows.\<close>

definition insertUIAGridRow :: "nvdaObject \<Rightarrow> cls list \<Rightarrow> cls list" where
  "insertUIAGridRow obj clsList =
     (if isUIA obj \<and>
         cachedClassName obj \<in> set [''LeafRow'', ''ThreadItem'', ''ThreadHeader'']
      then UIAGridRow # clsList else clsList)"

text \<open>Lines 176 to 179: the dialog behaviour is removed for a form embedded in a window
  of class \<^verbatim>\<open>AfxWndW\<close>; \<^verbatim>\<open>clsList.remove\<close> removes the first
  occurrence.\<close>

definition removeEmbeddedDialog :: "winUser \<Rightarrow> nvdaObject \<Rightarrow> cls list \<Rightarrow> cls list" where
  "removeEmbeddedDialog wu obj clsList =
     (if Dialog \<in> set clsList
      then (let parentWindow = getAncestor wu (windowHandle obj)
            in if parentWindow \<noteq> 0 \<and> getClassName wu parentWindow = ''AfxWndW''
               then remove1 Dialog clsList else clsList)
      else clsList)"

definition insertOutlookWordDocument :: "cls list \<Rightarrow> cls list" where
  "insertOutlookWordDocument clsList =
     (if WordDocument \<in> set clsList then OutlookWordDocument # clsList else clsList)"

text \<open>Lines 187 to 194: the date picker, the check boxes and the auto-complete list.\<close>

definition insertControlOverlay :: "nvdaObject \<Rightarrow> cls list \<Rightarrow> cls list" where
  "insertControlOverlay obj clsList =
     (if windowControlID obj = 4352 \<and> role obj = ROLE_BUTTON
      then DatePickerButton # clsList
      else if role obj = ROLE_TABLECELL \<and> windowClassName obj = ''rctrl_renwnd32''
      then DatePickerCell # clsList
      else if windowClassName obj = ''REListBox20W'' \<and> role obj = ROLE_CHECKBOX
      then REListBox20W_CheckBox # clsList
      else if role obj = ROLE_LISTITEM \<and>
              (startswith (windowClassName obj) ''REListBox'' \<or>
               startswith (windowClassName obj) ''NetUIHWND'')
      then AutoCompleteListItem # clsList
      else clsList)"

text \<open>Lines 198 to 203: the message list; \<open>outlookVersion\<close> is the value of
  \<^verbatim>\<open>self.outlookVersion\<close>.\<close>

definition insertMessageList :: "int \<Rightarrow> nvdaObject \<Rightarrow> cls list \<Rightarrow> cls list" where
  "insertMessageList outlookVersion obj clsList =
     (if (windowClassName obj = ''SUPERGRID'' \<and> windowControlID obj = 4704) \<or>
         (windowClassName obj = ''rctrl_renwnd32'' \<and> windowControlID obj = 109)
      then if outlookVersion \<noteq> 0 \<and> outlookVersion \<le> 9
           then MessageList_pre2003 # clsList
           else if event_objectID obj = OBJID_CLIENT \<and> event_childID obj = 0
           then SuperGridClient2010 # clsList
           else clsList
      else clsList)"

definition insertCalendarView :: "nvdaObject \<Rightarrow> cls list \<Rightarrow> cls list" where
  "insertCalendarView obj clsList =
     (if (windowClassName obj = ''AfxWndW'' \<and> windowControlID obj = 109) \<or>
         windowClassName obj \<in> set [''WeekViewWnd'', ''DayViewWnd'']
      then CalendarView # clsList else clsList)"

text \<open>The whole hook, with its two early returns: for an object that is not
  IAccessible, and for an entry of the address book. The list it mutates is returned.\<close>

definition chooseNVDAObjectOverlayClasses ::
  "winUser \<Rightarrow> int \<Rightarrow> nvdaObject \<Rightarrow> cls list \<Rightarrow> cls list" where
  "chooseNVDAObjectOverlayClasses wu outlookVersion obj clsList =
     (let c1 = insertUIAGridRow obj clsList
      in if \<not> isIAccessible obj then c1
         else
          (let c2 = removeEmbeddedDialog wu obj c1;
               c3 = insertOutlookWordDocument c2;
               c4 = insertControlOverlay obj c3
           in if role obj = ROLE_LISTITEM \<and> windowClassName obj = ''OUTEXVLB''
              then AddressBookEntry # c4
              else insertCalendarView obj (insertMessageList outlookVersion obj c4)))"

text \<open>Two dialog nodes for concrete runs: an IAccessible one and one of another API,
  both in window 20 whose parent window 10 is of class \<^verbatim>\<open>AfxWndW\<close>.\<close>

definition sampleWinUser :: winUser where
  "sampleWinUser =
     \<lparr>getAncestor = (\<lambda>hwnd. if hwnd = 20 then 10 else 0),
      getClassName = (\<lambda>hwnd. if hwnd = 10 then ''AfxWndW'' else ''#32770'')\<rparr>"

definition sampleDialog :: "bool \<Rightarrow> nvdaObject" where
  "sampleDialog ia =
     \<lparr>isUIA = False, isIAccessible = ia, cachedClassName = [], role = ROLE_DIALOG,
      windowClassName = ''#32770'', windowControlID = 0, windowHandle = 20,
      event_objectID = OBJID_CLIENT, event_childID = 0\<rparr>"

subsection \<open>The name of a grid row\<close>

definition silentMessageClasses :: "string list" where
  "silentMessageClasses = [''IPM.Appointment'', ''IPM.Contact'', ''IPM.Note'']"

definition oleFlagIconLabels :: "int \<Rightarrow> string option" where
  "oleFlagIconLabels =
     map_of [(1, ''purple flag''), (2, ''Orange flag''), (3, ''Green flag''),
             (4, ''Yellow flag''), (5, ''Blue flag''), (6, ''Red flag'')]"

definition importanceLabels :: "int \<Rightarrow> string option" where
  "importanceLabels = map_of [(2, ''high importance''), (0, ''low importance'')]"

datatype state = STATE_EXPANDED | STATE_COLLAPSED | STATE_SELECTED | STATE_OTHER

text \<open>The selected remote item: each property read gives a value or raises
  \<^verbatim>\<open>COMError\<close>.\<close>

record selectedItem =
  sel_unread :: "bool remote"
  sel_messageClass :: "string remote"
  sel_flagIcon :: "int remote"
  sel_attachments_count :: "int remote"
  sel_importance :: "int remote"

text \<open>A cached text child of the row: its cached name (empty when there is none) and the
  current names of its column header items.\<close>

record cachedChild =
  cachedName :: string
  columnHeaderNames :: "string list"

text \<open>What \<^verbatim>\<open>UIAGridRow._get_name\<close> reads: the states of the row, whether
  the app module has an object model, the read of the selected item, the Outlook version,
  the value string of the row, its cached text children, and the name the base classes
  give.\<close>

record gridRow =
  row_states :: "state set"
  row_nativeOm :: bool
  row_selection :: "selectedItem remote"
  row_outlookVersion :: int
  row_value :: string
  row_cachedChildren :: "cachedChild list"
  row_superName :: string

text \<open>Lines 482 to 491: the tokens of the value string that are kept.\<close>

definition valueTokens :: "bool \<Rightarrow> string \<Rightarrow> string \<Rightarrow> string list" where
  "valueTokens isUnread messageClass val =
     (let valueParts = split CHR '' '' val;
          valueCount = int (length valueParts);
          lastPart = (if isUnread then valueCount else valueCount - 1);
          firstPart = (if messageClass \<in> set silentMessageClasses
                       then max 1 (valueCount - 2) else 0)
      in py_slice valueParts firstPart lastPart)"

text \<open>Lines 470 to 491: what follows the importance label, by the Outlook version.\<close>

definition versionTokens :: "int \<Rightarrow> string \<Rightarrow> bool \<Rightarrow> string option \<Rightarrow> string list" where
  "versionTokens outlookVersion val isUnread messageClass =
     (if outlookVersion < 15
      then (if isUnread then [''unread''] else []) @
           (if messageClass = Some ''IPM.Schedule.Meeting.Request''
            then [''meeting request''] else [])
      else (case messageClass of
              None \<Rightarrow> []
            | Some mc \<Rightarrow> valueTokens isUnread mc val))"

text \<open>Lines 444 to 491: the labels read from the selected item. Every label of the two
  tables is a non-empty string, so a label that is found is appended.\<close>

definition selectionLabels :: "int \<Rightarrow> string \<Rightarrow> selectedItem \<Rightarrow> string list" where
  "selectionLabels outlookVersion val selected =
     (let isUnread = (case sel_unread selected of Got u \<Rightarrow> u | ComError \<Rightarrow> False);
          messageClass =
            (case sel_messageClass selected of Got c \<Rightarrow> Some c | ComError \<Rightarrow> None);
          flagIcon = (case sel_flagIcon selected of Got f \<Rightarrow> f | ComError \<Rightarrow> 0);
          t1 = (case oleFlagIconLabels flagIcon of Some l \<Rightarrow> [l] | None \<Rightarrow> []);
          attachmentCount =
            (case sel_attachments_count selected of Got n \<Rightarrow> n | ComError \<Rightarrow> 0);
          t2 = t1 @ (if attachmentCount > 0 then [''has attachment''] else []);
          importance = (case sel_importance selected of Got i \<Rightarrow> i | ComError \<Rightarrow> 1);
          t3 = t2 @ (case importanceLabels importance of Some l \<Rightarrow> [l] | None \<Rightarrow> [])
      in t3 @ versionTokens outlookVersion val isUnread messageClass)"

text \<open>The body of the loop over the cached children: the text one child adds, if any.\<close>

definition childText :: "bool \<Rightarrow> cachedChild \<Rightarrow> string list" where
  "childText reportTableHeaders e =
     (let name = cachedName e;
          columnHeaderTextList =
            (if name \<noteq> [] \<and> reportTableHeaders then columnHeaderNames e else []);
          columnHeaderText = join '' '' columnHeaderTextList;
          text1 = (if columnHeaderText \<noteq> [] then columnHeaderText @ '' '' @ name else name)
      in if text1 \<noteq> [] then [text1 @ '',''] else [])"

text \<open>\<^verbatim>\<open>UIAGridRow._get_name\<close>. \<open>stateLabels\<close> is
  \<^verbatim>\<open>controlTypes.stateLabels\<close> and \<open>reportTableHeaders\<close> the
  configuration flag of that name.\<close>

definition get_name :: "(state \<Rightarrow> string) \<Rightarrow> bool \<Rightarrow> gridRow \<Rightarrow> string" where
  "get_name stateLabels reportTableHeaders self =
     (let t0 = (if STATE_EXPANDED \<in> row_states self then [stateLabels STATE_EXPANDED]
                else if STATE_COLLAPSED \<in> row_states self then [stateLabels STATE_COLLAPSED]
                else []);
          selected = (if row_nativeOm self
                       then (case row_selection self of
                               Got sel \<Rightarrow> Some sel
                             | ComError \<Rightarrow> None)
                       else None);
          textList = (case selected of
                        Some sel \<Rightarrow>
                          t0 @ selectionLabels (row_outlookVersion self) (row_value self) sel
                      | None \<Rightarrow> t0);
          cachedChildren = row_cachedChildren self
      in if cachedChildren = [] then row_superName self
         else join '' '' (textList @ concat (map (childText reportTableHeaders) cachedChildren)))"

text \<open>The token slice in the words of the specification: the leading type token is
  stripped when the message class is one of the silent ones, and the trailing read/unread
  token is stripped when the message is not unread.\<close>

definition valueTokens_spec :: "bool \<Rightarrow> bool \<Rightarrow> string list \<Rightarrow> string list" where
  "valueTokens_spec isUnread silent valueParts =
     (let kept = (if silent then tl valueParts else valueParts)
      in if isUnread then kept else butlast kept)"

text \<open>State labels and rows for concrete runs.\<close>

definition sampleStateLabels :: "state \<Rightarrow> string" where
  "sampleStateLabels st =
     (if st = STATE_EXPANDED then ''expanded''
      else if st = STATE_COLLAPSED then ''collapsed''
      else if st = STATE_SELECTED then ''selected'' else [])"

definition sampleItem :: selectedItem where
  "sampleItem =
     \<lparr>sel_unread = Got True, sel_messageClass = Got ''IPM.Note'', sel_flagIcon = Got 6,
      sel_attachments_count = ComError, sel_importance = Got 2\<rparr>"

definition sampleRow :: "cachedChild list \<Rightarrow> gridRow" where
  "sampleRow children =
     \<lparr>row_states = {STATE_COLLAPSED}, row_nativeOm = True, row_selection = Got sampleItem,
      row_outlookVersion = 14, row_value = ''Message Unread'',
      row_cachedChildren = children, row_superName = ''Alice Hi''\<rparr>"

section \<open>Properties\<close>

subsection \<open>Received-message string\<close>

text \<open>
  C1 (as amended). For every received-message record, \<open>getReceivedMessageString\<close>
  returns \<open>[attachment] [unread] <senderName>, subject: <subject>, received: <receivedTime>\<close>:
  the prefix "attachment" appears iff the attachment count is greater than 0, the prefix
  "unread" appears iff the unread flag is true, and when both are present the order is
  attachment, unread, sender: "unread" is prepended first and "attachment" is prepended
  to the result.
\<close>

theorem getReceivedMessageString_layout:
  "getReceivedMessageString obj =
     (if attachments_count obj > 0 then ''attachment '' else '''') @
     (if unread obj then ''unread '' else '''') @
     senderName obj @ '', subject: '' @ subject obj @ '', received: '' @ receivedTime obj"
  by (simp add: getReceivedMessageString_def)

theorem getReceivedMessageString_layout_witness:
  "getReceivedMessageString
     \<lparr>entryID = ''00A1'', senderName = ''Alice'', subject = ''Hi'',
      receivedTime = ''2024-01-01T10:00'', unread = True, attachments_count = 1\<rparr>
   = ''attachment unread Alice, subject: Hi, received: 2024-01-01T10:00''"
  using getReceivedMessageString_layout
    [of "\<lparr>entryID = ''00A1'', senderName = ''Alice'', subject = ''Hi'',
         receivedTime = ''2024-01-01T10:00'', unread = True, attachments_count = 1\<rparr>"]
  by simp

text \<open>The example of the claim as it was written: the code does not return the string
  that starts with "unread attachment".\<close>

theorem getReceivedMessageString_order_counterexample:
  "getReceivedMessageString
     \<lparr>entryID = ''00A1'', senderName = ''Alice'', subject = ''Hi'',
      receivedTime = ''2024-01-01T10:00'', unread = True, attachments_count = 1\<rparr>
   \<noteq> ''unread attachment Alice, subject: Hi, received: 2024-01-01T10:00''"
  by (simp add: getReceivedMessageString_def)

subsection \<open>Acquisition of the native object model\<close>

text \<open>Once the attribute is written, no read calls the getter again.\<close>

lemma nativeOm_reads_cached:
  "nativeOm_attr s = Some v \<Longrightarrow> nativeOm_reads rs s = (replicate (length rs) v, s)"
  by (induction rs) (simp_all add: nativeOm_def)

text \<open>Once the waiting dialog was shown, no read shows it again.\<close>

lemma nativeOm_tried:
  "hasTriedoutlookAppSwitch s \<Longrightarrow>
     hasTriedoutlookAppSwitch (snd (nativeOm r s)) \<and>
     dialogsShown (snd (nativeOm r s)) = dialogsShown s"
  by (cases r; cases "nativeOm_attr s")
     (simp_all add: nativeOm_def get_nativeOm_def dialogsShown_def)

lemma nativeOm_reads_tried:
  "hasTriedoutlookAppSwitch s \<Longrightarrow>
     dialogsShown (snd (nativeOm_reads rs s)) = dialogsShown s"
proof (induction rs arbitrary: s)
  case Nil
  then show ?case by simp
next
  case (Cons r rs)
  obtain v s1 where r1: "nativeOm r s = (v, s1)" by (cases "nativeOm r s")
  with nativeOm_tried [OF Cons.prems, of r]
  have t: "hasTriedoutlookAppSwitch s1" and d: "dialogsShown s1 = dialogsShown s" by simp_all
  from Cons.IH [OF t] d r1 show ?case by (simp add: split_def Let_def)
qed

lemma first_failure:
  assumes "\<not> hasTriedoutlookAppSwitch s" and "nativeOm_attr s = None"
  shows "nativeOm Raised s =
           (None, s\<lparr>effects := effects s @ [ShowWaitingDialog], hasTriedoutlookAppSwitch := True\<rparr>)"
  using assms by (simp add: nativeOm_def get_nativeOm_def registerCOMWithFocusJuggle_def)

lemma second_failure:
  assumes "hasTriedoutlookAppSwitch s" and "nativeOm_attr s = None"
  shows "nativeOm Raised s =
           (None, s\<lparr>effects := effects s @ [LogError ''Failed to get native object model''],
                    nativeOm_attr := Some None\<rparr>)"
  using assms by (simp add: nativeOm_def get_nativeOm_def)

text \<open>
  C2. In a session in which no acquisition was attempted yet (the switch is untried and the
  attribute unwritten), a first read whose acquisition fails shows the waiting dialog once,
  returns \<open>None\<close> and writes no attribute, so the next read tries again; from then on
  no series of reads shows the dialog again, whatever the attempts give. If the second
  attempt fails too, one error is logged, \<open>None\<close> is written to the attribute, and
  every later read returns \<open>None\<close> and changes nothing.
\<close>

theorem acquisition_fails_twice:
  assumes "\<not> hasTriedoutlookAppSwitch s" and "nativeOm_attr s = None"
  shows "\<exists>s1 s2.
           nativeOm Raised s = (None, s1) \<and>
           effects s1 = effects s @ [ShowWaitingDialog] \<and>
           nativeOm_attr s1 = None \<and>
           (\<forall>rs. dialogsShown (snd (nativeOm_reads rs s1)) = dialogsShown s + 1) \<and>
           nativeOm Raised s1 = (None, s2) \<and>
           effects s2 = effects s1 @ [LogError ''Failed to get native object model''] \<and>
           nativeOm_attr s2 = Some None \<and>
           (\<forall>rs. nativeOm_reads rs s2 = (replicate (length rs) None, s2))"
proof -
  define s1 where
    "s1 = s\<lparr>effects := effects s @ [ShowWaitingDialog], hasTriedoutlookAppSwitch := True\<rparr>"
  define s2 where
    "s2 = s1\<lparr>effects := effects s1 @ [LogError ''Failed to get native object model''],
             nativeOm_attr := Some None\<rparr>"
  have a1: "nativeOm Raised s = (None, s1)"
    unfolding s1_def using assms by (rule first_failure)
  have t1: "hasTriedoutlookAppSwitch s1" and c1: "nativeOm_attr s1 = None"
    using assms by (simp_all add: s1_def)
  have e1: "effects s1 = effects s @ [ShowWaitingDialog]" by (simp add: s1_def)
  have d1: "dialogsShown s1 = dialogsShown s + 1" by (simp add: dialogsShown_def e1)
  have n1: "\<forall>rs. dialogsShown (snd (nativeOm_reads rs s1)) = dialogsShown s + 1"
    using nativeOm_reads_tried [OF t1] d1 by simp
  have a2: "nativeOm Raised s1 = (None, s2)"
    unfolding s2_def using t1 c1 by (rule second_failure)
  have e2: "effects s2 = effects s1 @ [LogError ''Failed to get native object model'']"
    and c2: "nativeOm_attr s2 = Some None"
    by (simp_all add: s2_def)
  have n2: "\<forall>rs. nativeOm_reads rs s2 = (replicate (length rs) None, s2)"
    using nativeOm_reads_cached [OF c2] by simp
  from a1 e1 c1 n1 a2 e2 c2 n2 show ?thesis by blast
qed

theorem acquisition_fails_twice_witness:
  "\<not> hasTriedoutlookAppSwitch newAppModule \<and> nativeOm_attr newAppModule = None \<and>
   (\<exists>s1 s2.
      nativeOm Raised newAppModule = (None, s1) \<and>
      effects s1 = [ShowWaitingDialog] \<and>
      nativeOm_attr s1 = None \<and>
      (\<forall>rs. dialogsShown (snd (nativeOm_reads rs s1)) = 1) \<and>
      nativeOm Raised s1 = (None, s2) \<and>
      effects s2 = [ShowWaitingDialog, LogError ''Failed to get native object model''] \<and>
      nativeOm_attr s2 = Some None \<and>
      (\<forall>rs. nativeOm_reads rs s2 = (replicate (length rs) None, s2)))"
proof -
  have h1: "\<not> hasTriedoutlookAppSwitch newAppModule" and h2: "nativeOm_attr newAppModule = None"
    by (simp_all add: newAppModule_def)
  have e: "effects newAppModule = []" and d: "dialogsShown newAppModule = 0"
    by (simp_all add: newAppModule_def dialogsShown_def)
  from acquisition_fails_twice [OF h1 h2] obtain s1 s2 where
    k: "nativeOm Raised newAppModule = (None, s1)"
       "effects s1 = effects newAppModule @ [ShowWaitingDialog]"
       "nativeOm_attr s1 = None"
       "\<forall>rs. dialogsShown (snd (nativeOm_reads rs s1)) = dialogsShown newAppModule + 1"
       "nativeOm Raised s1 = (None, s2)"
       "effects s2 = effects s1 @ [LogError ''Failed to get native object model'']"
       "nativeOm_attr s2 = Some None"
       "\<forall>rs. nativeOm_reads rs s2 = (replicate (length rs) None, s2)"
    by blast
  have "effects s1 = [ShowWaitingDialog]" using k(2) e by simp
  moreover have "effects s2 = [ShowWaitingDialog, LogError ''Failed to get native object model'']"
    using k(6) \<open>effects s1 = [ShowWaitingDialog]\<close> by simp
  moreover have "\<forall>rs. dialogsShown (snd (nativeOm_reads rs s1)) = 1" using k(4) d by simp
  ultimately show ?thesis using h1 h2 k(1,3,5,7,8) by blast
qed

subsection \<open>Calendar time ranges\<close>

text \<open>Under the source's all-day condition the text is the long date of the start
  followed by "(all day)".\<close>

lemma allDay_text:
  "isAllDay startTime endTime \<Longrightarrow>
     generateTimeRangeText wk prev startTime endTime =
       (GetDateFormatEx wk startTime @ '' (all day)'', Some (date_of startTime))"
  by (simp add: generateTimeRangeText_def isAllDay_def Let_def)

lemma toordinal_0301: "toordinal \<lparr>d_year = 2024, d_month = 3, d_day = 1\<rparr> = 738946"
  by (simp add: toordinal_def days_before_year_def days_before_month_def is_leap_def)

lemma toordinal_0302: "toordinal \<lparr>d_year = 2024, d_month = 3, d_day = 2\<rparr> = 738947"
  by (simp add: toordinal_def days_before_year_def days_before_month_def is_leap_def)

lemma isAllDay_afternoon: "isAllDay (mkDatetime 2024 3 1 0 0 0) (mkDatetime 2024 3 2 15 30 0)"
  by (simp add: isAllDay_def mkDatetime_def date_of_def total_seconds_def SECONDS_PER_DAY_def
      toordinal_0301 toordinal_0302)

text \<open>The all-day condition looks at the time of day of the start and at the two dates
  only.\<close>

lemma isAllDay_by_dates:
  "isAllDay startTime endTime =
     ((dt_hour startTime, dt_minute startTime, dt_second startTime) = (0, 0, 0) \<and>
      toordinal (date_of endTime) = toordinal (date_of startTime) + 1)"
  by (auto simp add: isAllDay_def total_seconds_def SECONDS_PER_DAY_def)

text \<open>The slot from midnight to the next midnight is announced as all day.\<close>

lemma allDay_midnight_to_midnight:
  "generateTimeRangeText wk prev (mkDatetime 2024 3 1 0 0 0) (mkDatetime 2024 3 2 0 0 0) =
     (GetDateFormatEx wk (mkDatetime 2024 3 1 0 0 0) @ '' (all day)'',
      Some \<lparr>d_year = 2024, d_month = 3, d_day = 1\<rparr>)"
proof -
  have "isAllDay (mkDatetime 2024 3 1 0 0 0) (mkDatetime 2024 3 2 0 0 0)"
    by (simp add: isAllDay_by_dates mkDatetime_def date_of_def toordinal_0301 toordinal_0302)
  from allDay_text [OF this, of wk prev] show ?thesis
    by (simp add: date_of_def mkDatetime_def)
qed

text \<open>
  C3. The claim: the all-day text is returned exactly when the slot starts at local midnight
  and end minus start is 86400 seconds. The source compares the difference of the two
  dates, not of the two times, so the time of day of the end is not looked at: a slot from
  2024-03-01T00:00:00 to 2024-03-02T15:30:00, which lasts 141000 seconds, is announced as
  the long date of 1 March 2024 followed by "(all day)", whatever the formatting functions
  and the date announced before.
\<close>

theorem allDay_drops_end_time:
  "generateTimeRangeText wk prev (mkDatetime 2024 3 1 0 0 0) (mkDatetime 2024 3 2 15 30 0) =
     (GetDateFormatEx wk (mkDatetime 2024 3 1 0 0 0) @ '' (all day)'',
      Some \<lparr>d_year = 2024, d_month = 3, d_day = 1\<rparr>)"
  using allDay_text [OF isAllDay_afternoon, of wk prev]
  by (simp add: date_of_def mkDatetime_def)

theorem allDay_drops_end_time_witness:
  "generateTimeRangeText sampleKernel None
     (mkDatetime 2024 3 1 0 0 0) (mkDatetime 2024 3 2 15 30 0) =
     (''1 March 2024 (all day)'', Some \<lparr>d_year = 2024, d_month = 3, d_day = 1\<rparr>)"
  using allDay_drops_end_time [of sampleKernel None]
  by (simp add: sampleKernel_def sampleDateText_def sampleTimeText_def mkDatetime_def)




subsection \<open>Version gates without an object model\<close>

lemma version_of_unavailable:
  "fst (nativeOm r appMod) = None \<Longrightarrow>
     get_outlookVersion r appMod = (Inr 0, snd (nativeOm r appMod))"
  by (simp add: get_outlookVersion_def split_def)

text \<open>
  C10. Whenever the read of the native object model gives \<open>None\<close>, the Outlook
  version is 0; then \<open>reportFocus\<close> of the calendar view only raises the generic
  value-change event, and \<open>event_gainFocus\<close> of the grid client only runs the
  focus handling of its base class. Neither reads the object model a second time.
\<close>

theorem unavailable_om_falls_back:
  assumes "fst (nativeOm r appMod) = None"
  shows "get_outlookVersion r appMod = (Inr 0, snd (nativeOm r appMod)) \<and>
         reportFocus wk r r2 appMod prev =
           (Inr [EventValueChange], snd (nativeOm r appMod), prev) \<and>
         event_gainFocus r appMod handler uiaFocus parent =
           (Inr [SuperEventGainFocus], snd (nativeOm r appMod))"
  using version_of_unavailable [OF assms]
  by (simp add: reportFocus_def event_gainFocus_def)

theorem unavailable_om_falls_back_witness:
  "fst (nativeOm Raised newAppModule) = None \<and>
   get_outlookVersion Raised newAppModule =
     (Inr 0, \<lparr>hasTriedoutlookAppSwitch = True, nativeOm_attr = None,
              effects = [ShowWaitingDialog]\<rparr>) \<and>
   reportFocus sampleKernel Raised Raised newAppModule None =
     (Inr [EventValueChange],
      \<lparr>hasTriedoutlookAppSwitch = True, nativeOm_attr = None, effects = [ShowWaitingDialog]\<rparr>,
      None) \<and>
   event_gainFocus Raised newAppModule True (Some True) 7 =
     (Inr [SuperEventGainFocus],
      \<lparr>hasTriedoutlookAppSwitch = True, nativeOm_attr = None, effects = [ShowWaitingDialog]\<rparr>)"
proof -
  have n: "nativeOm Raised newAppModule =
      (None, \<lparr>hasTriedoutlookAppSwitch = True, nativeOm_attr = None,
               effects = [ShowWaitingDialog]\<rparr>)"
    by (simp add: nativeOm_def get_nativeOm_def registerCOMWithFocusJuggle_def newAppModule_def)
  then have h: "fst (nativeOm Raised newAppModule) = None" by simp
  from unavailable_om_falls_back [OF h, of sampleKernel Raised None True "Some True" 7] n h
  show ?thesis by simp
qed

subsection \<open>Navigation in the legacy message list\<close>

text \<open>
  C5. The claim: a navigation gesture that changes the identity of the remote selection
  replaces the current message item and emits exactly one focus event on the new item. The
  script builds the item by \<^verbatim>\<open>MessageItem(self,msg)\<close>, which leaves the
  parameter \<open>msg\<close> at its default, so the constructor raises: on an overlay with no
  current message item and any selected message, the gesture is sent, the exception leaves
  the script, no focus event is emitted and the overlay is unchanged.
\<close>

theorem moveByMessage_constructor_raises:
  "script_moveByMessage Window_init (Some msg)
     \<lparr>ml_windowHandle = h, curMessageItem = None\<rparr> =
     ([GestureSend], \<lparr>ml_windowHandle = h, curMessageItem = None\<rparr>, Some NameError)"
  by (simp add: script_moveByMessage_def MessageItem_init_def)

theorem moveByMessage_constructor_raises_witness:
  "script_moveByMessage (\<lambda>wh. True) (Some sampleMail)
     \<lparr>ml_windowHandle = 4711, curMessageItem = None\<rparr> =
     ([GestureSend], \<lparr>ml_windowHandle = 4711, curMessageItem = None\<rparr>, Some NameError)"
  using moveByMessage_constructor_raises [of "\<lambda>wh. True" sampleMail 4711]
  by simp

text \<open>Whatever the selection and the overlay, the script leaves the overlay as it was
  and emits no focus event.\<close>

lemma moveByMessage_never_focus:
  "script_moveByMessage Window_init sel self = (es, self1, err) \<Longrightarrow>
     self1 = self \<and> (\<forall>it. GainFocus it \<notin> set es)"
  by (auto simp add: script_moveByMessage_def MessageItem_init_def
      split: option.splits sum.splits)

subsection \<open>Construction of a message item\<close>

text \<open>
  C9. A call of the constructor of \<^verbatim>\<open>MessageItem\<close> in which the parent or
  the message is missing raises an exception. When both are supplied (an overlay as parent
  and a remote message), construction succeeds and the new object holds the message and the
  parent: with the window handle that was passed, or, when none was passed, with the
  parent's; the initialiser of the base class, which is outside the module, is assumed to
  accept that window handle.
\<close>

theorem MessageItem_init_contract:
  "(parent = PyNone \<or> msg = PyNone \<longrightarrow>
      MessageItem_init Window_init wh parent msg = Inl NameError) \<and>
   (truthy wh \<and> Window_init wh \<longrightarrow>
      MessageItem_init Window_init wh (PyMessageList h) (PyMsg m) =
        Inr \<lparr>mi_msg = PyMsg m, mi_parent = PyMessageList h, mi_windowHandle = wh\<rparr>) \<and>
   (Window_init (PyHandle h) \<longrightarrow>
      MessageItem_init Window_init PyNone (PyMessageList h) (PyMsg m) =
        Inr \<lparr>mi_msg = PyMsg m, mi_parent = PyMessageList h, mi_windowHandle = PyHandle h\<rparr>)"
  by (auto simp add: MessageItem_init_def)

theorem MessageItem_init_contract_witness:
  "MessageItem_init truthy (PyHandle 4711) PyNone (PyMsg sampleMail) = Inl NameError \<and>
   MessageItem_init truthy (PyHandle 4711) (PyMessageList 4711) PyNone = Inl NameError \<and>
   MessageItem_init truthy (PyHandle 4711) (PyMessageList 4711) (PyMsg sampleMail) =
     Inr \<lparr>mi_msg = PyMsg sampleMail, mi_parent = PyMessageList 4711,
          mi_windowHandle = PyHandle 4711\<rparr> \<and>
   MessageItem_init truthy PyNone (PyMessageList 4711) (PyMsg sampleMail) =
     Inr \<lparr>mi_msg = PyMsg sampleMail, mi_parent = PyMessageList 4711,
          mi_windowHandle = PyHandle 4711\<rparr>"
  using
    MessageItem_init_contract [where parent = PyNone and msg = "PyMsg sampleMail"
      and Window_init = truthy and wh = "PyHandle 4711" and h = 4711
      and m = sampleMail]
    MessageItem_init_contract [where parent = "PyMessageList 4711" and msg = PyNone
      and Window_init = truthy and wh = "PyHandle 4711" and h = 4711
      and m = sampleMail]
  by simp

subsection \<open>Embedded dialog forms\<close>

text \<open>Removing the first occurrence removes the class when it occurs at most once.\<close>

lemma remove1_at_most_once:
  "count_list xs x \<le> 1 \<Longrightarrow> x \<notin> set (remove1 x xs)"
  by (induction xs) (auto simp add: count_list_0_iff split: if_splits)

text \<open>No insertion of the hook adds or removes the dialog behaviour.\<close>

lemma insertions_keep_Dialog:
  "(Dialog \<in> set (insertUIAGridRow obj c)) = (Dialog \<in> set c)"
  "(Dialog \<in> set (insertOutlookWordDocument c)) = (Dialog \<in> set c)"
  "(Dialog \<in> set (insertControlOverlay obj c)) = (Dialog \<in> set c)"
  "(Dialog \<in> set (insertMessageList ver obj c)) = (Dialog \<in> set c)"
  "(Dialog \<in> set (insertCalendarView obj c)) = (Dialog \<in> set c)"
  by (simp_all add: insertUIAGridRow_def insertOutlookWordDocument_def
      insertControlOverlay_def insertMessageList_def insertCalendarView_def)

lemma count_insertUIAGridRow:
  "count_list (insertUIAGridRow obj c) Dialog = count_list c Dialog"
  by (simp add: insertUIAGridRow_def)

lemma removeEmbeddedDialog_embedded:
  assumes "getAncestor wu (windowHandle obj) \<noteq> 0"
    and "getClassName wu (getAncestor wu (windowHandle obj)) = ''AfxWndW''"
  shows "removeEmbeddedDialog wu obj c = remove1 Dialog c"
  using assms by (simp add: removeEmbeddedDialog_def remove1_idem)

lemma choose_Dialog_iff:
  "isIAccessible obj \<Longrightarrow>
     (Dialog \<in> set (chooseNVDAObjectOverlayClasses wu ver obj clsList)) =
     (Dialog \<in> set (removeEmbeddedDialog wu obj (insertUIAGridRow obj clsList)))"
  by (simp add: chooseNVDAObjectOverlayClasses_def Let_def insertions_keep_Dialog)

text \<open>
  C8 (as amended). For every IAccessible node whose parent window is of the class
  \<^verbatim>\<open>AfxWndW\<close> and whose overlay list holds the dialog behaviour at most once,
  the list the hook leaves does not hold the dialog behaviour: it is removed, and no later
  rule inserts it.
\<close>

theorem embedded_dialog_loses_Dialog:
  assumes "isIAccessible obj"
    and "getAncestor wu (windowHandle obj) \<noteq> 0"
    and "getClassName wu (getAncestor wu (windowHandle obj)) = ''AfxWndW''"
    and "count_list clsList Dialog \<le> 1"
  shows "Dialog \<notin> set (chooseNVDAObjectOverlayClasses wu ver obj clsList)"
proof
  assume "Dialog \<in> set (chooseNVDAObjectOverlayClasses wu ver obj clsList)"
  with choose_Dialog_iff [OF assms(1)] removeEmbeddedDialog_embedded [OF assms(2,3)]
  have "Dialog \<in> set (remove1 Dialog (insertUIAGridRow obj clsList))" by simp
  moreover have "count_list (insertUIAGridRow obj clsList) Dialog \<le> 1"
    using assms(4) by (simp add: count_insertUIAGridRow)
  ultimately show False
    using remove1_at_most_once [of "insertUIAGridRow obj clsList" Dialog] by simp
qed

theorem embedded_dialog_loses_Dialog_witness:
  "isIAccessible (sampleDialog True) \<and>
   getAncestor sampleWinUser (windowHandle (sampleDialog True)) \<noteq> 0 \<and>
   getClassName sampleWinUser (getAncestor sampleWinUser (windowHandle (sampleDialog True)))
     = ''AfxWndW'' \<and>
   count_list [Dialog, OtherClass ''IAccessible''] Dialog \<le> 1 \<and>
   Dialog \<notin> set (chooseNVDAObjectOverlayClasses sampleWinUser 16 (sampleDialog True)
                    [Dialog, OtherClass ''IAccessible''])"
proof -
  have h1: "isIAccessible (sampleDialog True)" by (simp add: sampleDialog_def)
  have h2: "getAncestor sampleWinUser (windowHandle (sampleDialog True)) \<noteq> 0"
    by (simp add: sampleDialog_def sampleWinUser_def)
  have h3: "getClassName sampleWinUser
              (getAncestor sampleWinUser (windowHandle (sampleDialog True))) = ''AfxWndW''"
    by (simp add: sampleDialog_def sampleWinUser_def)
  have h4: "count_list [Dialog, OtherClass ''IAccessible''] Dialog \<le> 1" by simp
  from embedded_dialog_loses_Dialog [OF h1 h2 h3 h4, of 16] h1 h2 h3 h4
  show ?thesis by blast
qed

text \<open>The claim as it was written, for every node: a node that is not IAccessible leaves
  the hook at its first early return, before the rule of the dialog, and keeps the dialog
  behaviour although its parent window is of the class \<^verbatim>\<open>AfxWndW\<close>.\<close>

theorem other_api_dialog_counterexample:
  "getClassName sampleWinUser (getAncestor sampleWinUser (windowHandle (sampleDialog False)))
     = ''AfxWndW'' \<and>
   chooseNVDAObjectOverlayClasses sampleWinUser 16 (sampleDialog False)
     [Dialog, OtherClass ''Window''] = [Dialog, OtherClass ''Window'']"
  by (simp add: chooseNVDAObjectOverlayClasses_def insertUIAGridRow_def removeEmbeddedDialog_def insertOutlookWordDocument_def insertControlOverlay_def insertMessageList_def insertCalendarView_def startswith_def OBJID_CLIENT_def sampleDialog_def sampleWinUser_def)

text \<open>The same node as an IAccessible object.\<close>

lemma sample_iaccessible_run:
  "chooseNVDAObjectOverlayClasses sampleWinUser 16 (sampleDialog True)
     [Dialog, OtherClass ''IAccessible''] = [OtherClass ''IAccessible'']"
  by (simp add: chooseNVDAObjectOverlayClasses_def insertUIAGridRow_def removeEmbeddedDialog_def insertOutlookWordDocument_def insertControlOverlay_def insertMessageList_def insertCalendarView_def startswith_def OBJID_CLIENT_def sampleDialog_def sampleWinUser_def)

subsection \<open>The name of a grid row\<close>

text \<open>The table of flag labels has the six keys 1 to 6.\<close>

lemma oleFlagIconLabels_known:
  "(oleFlagIconLabels f = None) = (f < 1 \<or> 6 < f)"
  unfolding oleFlagIconLabels_def by (simp; arith)

lemma importanceLabels_cases:
  "(case importanceLabels i of Some l \<Rightarrow> [l] | None \<Rightarrow> []) =
     (if i = 2 then [''high importance''] else if i = 0 then [''low importance''] else [])"
  by (simp add: importanceLabels_def)

text \<open>The labels of the selected item, read by read: a failed read adds nothing.\<close>

lemma selectionLabels_order:
  "selectionLabels ver val sel =
     (case sel_flagIcon sel of
        Got f \<Rightarrow> (case oleFlagIconLabels f of Some l \<Rightarrow> [l] | None \<Rightarrow> [])
      | ComError \<Rightarrow> []) @
     (case sel_attachments_count sel of
        Got n \<Rightarrow> if n > 0 then [''has attachment''] else []
      | ComError \<Rightarrow> []) @
     (case sel_importance sel of
        Got i \<Rightarrow> if i = 2 then [''high importance'']
                 else if i = 0 then [''low importance''] else []
      | ComError \<Rightarrow> []) @
     versionTokens ver val
       (case sel_unread sel of Got u \<Rightarrow> u | ComError \<Rightarrow> False)
       (case sel_messageClass sel of Got c \<Rightarrow> Some c | ComError \<Rightarrow> None)"
proof -
  have f0: "oleFlagIconLabels 0 = None" by (simp add: oleFlagIconLabels_known)
  have i1: "importanceLabels 1 = None" by (simp add: importanceLabels_def)
  show ?thesis
    unfolding selectionLabels_def Let_def
    by (cases "sel_flagIcon sel"; cases "sel_attachments_count sel"; cases "sel_importance sel")
       (simp_all add: f0 i1 importanceLabels_cases)
qed

text \<open>
  C6 (as amended). For every grid row that has at least one cached text child, and every
  subset of remote property reads that fail, the name is the join by spaces of: the state
  label; then, when the selected item was fetched, the flag label (of the six-entry table,
  none for another flag value), "has attachment" iff the attachment count is greater than
  0, the importance label for high (2) or low (0) only, and the tokens that depend on the
  version; then the texts of the children. A failed read adds no label and leaves the
  order of the others as it is.
\<close>

theorem get_name_label_order:
  assumes "row_cachedChildren self \<noteq> []"
  shows "get_name stateLabels reportTableHeaders self =
     join '' ''
      ((if STATE_EXPANDED \<in> row_states self then [stateLabels STATE_EXPANDED]
        else if STATE_COLLAPSED \<in> row_states self then [stateLabels STATE_COLLAPSED]
        else []) @
       (case (if row_nativeOm self then row_selection self else ComError) of
          ComError \<Rightarrow> []
        | Got sel \<Rightarrow>
            (case sel_flagIcon sel of
               Got f \<Rightarrow> (case oleFlagIconLabels f of Some l \<Rightarrow> [l] | None \<Rightarrow> [])
             | ComError \<Rightarrow> []) @
            (case sel_attachments_count sel of
               Got n \<Rightarrow> if n > 0 then [''has attachment''] else []
             | ComError \<Rightarrow> []) @
            (case sel_importance sel of
               Got i \<Rightarrow> if i = 2 then [''high importance'']
                        else if i = 0 then [''low importance''] else []
             | ComError \<Rightarrow> []) @
            versionTokens (row_outlookVersion self) (row_value self)
              (case sel_unread sel of Got u \<Rightarrow> u | ComError \<Rightarrow> False)
              (case sel_messageClass sel of Got c \<Rightarrow> Some c | ComError \<Rightarrow> None)) @
       concat (map (childText reportTableHeaders) (row_cachedChildren self))) \<and>
     (\<forall>f. (oleFlagIconLabels f = None) = (f < 1 \<or> 6 < f))"
proof -
  have "get_name stateLabels reportTableHeaders self =
     join '' ''
      ((if STATE_EXPANDED \<in> row_states self then [stateLabels STATE_EXPANDED]
        else if STATE_COLLAPSED \<in> row_states self then [stateLabels STATE_COLLAPSED]
        else []) @
       (case (if row_nativeOm self then row_selection self else ComError) of
          ComError \<Rightarrow> []
        | Got sel \<Rightarrow> selectionLabels (row_outlookVersion self) (row_value self) sel) @
       concat (map (childText reportTableHeaders) (row_cachedChildren self)))"
    using assms unfolding get_name_def Let_def
    by (cases "row_selection self") simp_all
  then show ?thesis
    by (cases "row_nativeOm self"; cases "row_selection self")
       (simp_all add: selectionLabels_order oleFlagIconLabels_known)
qed

theorem get_name_label_order_witness:
  "row_cachedChildren
     (sampleRow [\<lparr>cachedName = ''Alice'', columnHeaderNames = [''From'']\<rparr>,
                 \<lparr>cachedName = ''Hi'', columnHeaderNames = [''Subject'']\<rparr>]) \<noteq> [] \<and>
   get_name sampleStateLabels True
     (sampleRow [\<lparr>cachedName = ''Alice'', columnHeaderNames = [''From'']\<rparr>,
                 \<lparr>cachedName = ''Hi'', columnHeaderNames = [''Subject'']\<rparr>])
   = ''collapsed Red flag high importance unread From Alice, Subject Hi,''"
proof -
  have h: "row_cachedChildren
     (sampleRow [\<lparr>cachedName = ''Alice'', columnHeaderNames = [''From'']\<rparr>,
                 \<lparr>cachedName = ''Hi'', columnHeaderNames = [''Subject'']\<rparr>]) \<noteq> []"
    by (simp add: sampleRow_def)
  have f: "oleFlagIconLabels 6 = Some ''Red flag''" by (simp add: oleFlagIconLabels_def)
  from get_name_label_order [OF h, of sampleStateLabels True] h
  show ?thesis
    by (simp add: sampleRow_def sampleItem_def sampleStateLabels_def f versionTokens_def
        childText_def)
qed

text \<open>The claim as it was written, for every grid row: a row without cached text
  children gets the name of its base classes, and none of the labels of the selected item
  (here a red flag, an attachment, high importance, unread) is part of it.\<close>

theorem no_children_counterexample:
  "selectionLabels 14 ''Message Unread'' (sampleItem\<lparr>sel_attachments_count := Got 1\<rparr>)
     = [''Red flag'', ''has attachment'', ''high importance'', ''unread''] \<and>
   get_name sampleStateLabels True
     ((sampleRow [])\<lparr>row_selection := Got (sampleItem\<lparr>sel_attachments_count := Got 1\<rparr>)\<rparr>)
     = ''Alice Hi''"
proof -
  have f: "oleFlagIconLabels 6 = Some ''Red flag''" by (simp add: oleFlagIconLabels_def)
  show ?thesis
    by (simp add: selectionLabels_order sampleItem_def f versionTokens_def get_name_def
        sampleRow_def)
qed

subsection \<open>The tokens of the value string\<close>

lemma split_not_Nil: "split c s \<noteq> []"
  by (induction s) (auto split: list.splits)

lemma py_slice_nonneg:
  "py_slice xs (int i) (int j) = drop i (take j xs)"
  by (simp add: py_slice_def slice_index_def min_def)

text \<open>The slice of the source, by \<open>drop\<close> and \<open>butlast\<close>.\<close>

lemma valueTokens_drop_take:
  "valueTokens isUnread mc val =
     drop (if mc \<in> set silentMessageClasses then max 1 (length (split CHR '' '' val) - 2) else 0)
       (if isUnread then split CHR '' '' val else butlast (split CHR '' '' val))"
proof -
  define parts where "parts = split CHR '' '' val"
  have n: "parts \<noteq> []" unfolding parts_def by (rule split_not_Nil)
  then have len: "0 < length parts" by simp
  have first: "(if mc \<in> set silentMessageClasses then max 1 (int (length parts) - 2) else 0)
      = int (if mc \<in> set silentMessageClasses then max 1 (length parts - 2) else 0)"
    using len by auto
  have last: "(if isUnread then int (length parts) else int (length parts) - 1)
      = int (if isUnread then length parts else length parts - 1)"
    using n by (cases parts) auto
  have "valueTokens isUnread mc val =
      py_slice parts
        (int (if mc \<in> set silentMessageClasses then max 1 (length parts - 2) else 0))
        (int (if isUnread then length parts else length parts - 1))"
    unfolding valueTokens_def Let_def parts_def [symmetric] first last ..
  also have "\<dots> = drop (if mc \<in> set silentMessageClasses then max 1 (length parts - 2) else 0)
       (take (if isUnread then length parts else length parts - 1) parts)"
    by (rule py_slice_nonneg)
  also have "take (if isUnread then length parts else length parts - 1) parts =
      (if isUnread then parts else butlast parts)"
    by (simp add: butlast_conv_take)
  finally show ?thesis unfolding parts_def .
qed

lemma drop_one_tl: "drop (Suc 0) xs = tl xs"
  by (cases xs) simp_all

text \<open>
  C7 (as amended). For every grid row of a modern backend (version 15 or more) with a known
  message class, the value string is split on spaces; the slice appended to the name drops
  the trailing read/unread token exactly when the message is not unread, and, exactly when
  the message class is one of the silent classes, drops the leading \<open>max 1 (n - 2)\<close>
  tokens of the \<open>n\<close> tokens. For a value of at most three tokens that is the slice
  of the specification: only the leading type token is dropped.
\<close>

theorem modern_value_tokens:
  assumes "15 \<le> ver"
  shows "versionTokens ver val isUnread (Some mc) =
           drop (if mc \<in> set silentMessageClasses
                 then max 1 (length (split CHR '' '' val) - 2) else 0)
             (if isUnread then split CHR '' '' val else butlast (split CHR '' '' val)) \<and>
         (length (split CHR '' '' val) \<le> 3 \<longrightarrow>
            versionTokens ver val isUnread (Some mc) =
              valueTokens_spec isUnread (mc \<in> set silentMessageClasses)
                (split CHR '' '' val))"
proof -
  have v: "versionTokens ver val isUnread (Some mc) = valueTokens isUnread mc val"
    using assms by (simp add: versionTokens_def)
  have s: "length (split CHR '' '' val) \<le> 3 \<Longrightarrow>
      max 1 (length (split CHR '' '' val) - 2) = Suc 0"
    by arith
  show ?thesis
    unfolding v valueTokens_drop_take
    by (auto simp add: valueTokens_spec_def s drop_one_tl drop_butlast butlast_tl Let_def)
qed

theorem modern_value_tokens_witness:
  "(15::int) \<le> 16 \<and>
   versionTokens 16 ''Message Replied Read'' False (Some ''IPM.Note'') = [''Replied''] \<and>
   valueTokens_spec False (''IPM.Note'' \<in> set silentMessageClasses)
     (split CHR '' '' ''Message Replied Read'') = [''Replied'']"
proof -
  have h: "(15::int) \<le> 16" by simp
  have p: "split CHR '' '' ''Message Replied Read'' = [''Message'', ''Replied'', ''Read'']"
    by simp
  from modern_value_tokens [OF h, of "''Message Replied Read''" False "''IPM.Note''"] p h
  show ?thesis by (simp add: silentMessageClasses_def valueTokens_spec_def)
qed

text \<open>The claim as it was written, with only the leading token stripped: of a value of
  four tokens of a read message of a silent class, the source keeps one token, not two.\<close>

theorem four_tokens_counterexample:
  "versionTokens 16 ''Message Replied Forwarded Read'' False (Some ''IPM.Note'')
     = [''Forwarded''] \<and>
   valueTokens_spec False (''IPM.Note'' \<in> set silentMessageClasses)
     (split CHR '' '' ''Message Replied Forwarded Read'') = [''Replied'', ''Forwarded'']"
proof -
  have p: "split CHR '' '' ''Message Replied Forwarded Read''
      = [''Message'', ''Replied'', ''Forwarded'', ''Read'']"
    by simp
  show ?thesis
    by (simp add: versionTokens_def valueTokens_def p Let_def py_slice_def slice_index_def
        silentMessageClasses_def valueTokens_spec_def)
qed

end
